theory Spec2Isabelle
  imports Main
begin

section \<open>Strings, URIs and filesystem paths\<close>

text \<open>
  The language-server handler of \<^verbatim>\<open>verilog/tools/ls/symbol-table-handler.cc\<close>.
  A \<^verbatim>\<open>std::string\<close> or \<^verbatim>\<open>absl::string_view\<close> is a \<^typ>\<open>string\<close>;
  a \<^verbatim>\<open>std::filesystem::path\<close> is the string of its native (POSIX) pathname.
\<close>

definition fileschemeprefix :: string where
  "fileschemeprefix = ''file://''"

definition filelistname :: string where
  "filelistname = ''verible.filelist''"

text \<open>\<^verbatim>\<open>absl::StartsWith(text, prefix)\<close>.\<close>

definition StartsWith :: "string \<Rightarrow> string \<Rightarrow> bool" where
  "StartsWith text pre = (take (length pre) text = pre)"

text \<open>
  \<^verbatim>\<open>if (!absl::StartsWith(uri, fileschemeprefix)) return "";\<close>
  \<^verbatim>\<open>return uri.substr(fileschemeprefix.size());\<close>
\<close>

definition LSPUriToPath :: "string \<Rightarrow> string" where
  "LSPUriToPath uri =
     (if \<not> StartsWith uri fileschemeprefix then ''''
      else drop (length fileschemeprefix) uri)"

text \<open>
  The operations of \<^verbatim>\<open>std::filesystem::path\<close> that the handler calls, on POSIX
  pathnames: the directory separator is \<open>/\<close>, there is no root name, and a path is
  absolute when it starts with a separator.
\<close>

definition is_separator :: "char \<Rightarrow> bool" where
  "is_separator c = (c = CHR ''/'')"

definition is_absolute :: "string \<Rightarrow> bool" where
  "is_absolute p = (case p of [] \<Rightarrow> False | c # _ \<Rightarrow> is_separator c)"

text \<open>\<^verbatim>\<open>has_relative_path()\<close>: something is left after the root directory.\<close>

definition has_relative_path :: "string \<Rightarrow> bool" where
  "has_relative_path p = (dropWhile is_separator p \<noteq> [])"

text \<open>
  \<^verbatim>\<open>operator/\<close>: an absolute right operand replaces the left one; otherwise the right
  operand is appended, after a separator unless the left operand is empty or ends in one.
\<close>

definition path_append :: "string \<Rightarrow> string \<Rightarrow> string" where
  "path_append p q =
     (if is_absolute q then q
      else if p = [] \<or> is_separator (last p) then p @ q
      else p @ ''/'' @ q)"

text \<open>
  \<^verbatim>\<open>parent_path()\<close>: the path itself when it has no relative part; otherwise the path
  without its last element (the filename, which is empty after a trailing separator)
  and without the separators before it, the root directory being kept.
\<close>

definition drop_while_end :: "(char \<Rightarrow> bool) \<Rightarrow> string \<Rightarrow> string" where
  "drop_while_end P p = rev (dropWhile P (rev p))"

definition parent_path :: "string \<Rightarrow> string" where
  "parent_path p =
     (if \<not> has_relative_path p then p
      else let stem = drop_while_end is_separator (drop_while_end (\<lambda>c. \<not> is_separator c) p)
           in if stem = [] then takeWhile is_separator p else stem)"

text \<open>
  \<^verbatim>\<open>std::filesystem::absolute(p)\<close> for the current working directory \<open>cwd\<close>:
  \<^verbatim>\<open>current_path() / p\<close>.
\<close>

definition absolute :: "string \<Rightarrow> string \<Rightarrow> string" where
  "absolute cwd p = path_append cwd p"

text \<open>
  \<^verbatim>\<open>std::filesystem::path p(path.begin(), path.end());\<close>
  \<^verbatim>\<open>return absl::StrCat(fileschemeprefix, std::filesystem::absolute(p).string());\<close>
\<close>

definition PathToLSPUri :: "string \<Rightarrow> string \<Rightarrow> string" where
  "PathToLSPUri cwd path = fileschemeprefix @ absolute cwd path"

text \<open>
  Streaming a \<^verbatim>\<open>std::filesystem::path\<close> into a log writes it quoted
  (\<^verbatim>\<open>std::quoted\<close>): between double quotes, with a backslash before every double
  quote and backslash of the pathname.
\<close>

definition quoted :: "string \<Rightarrow> string" where
  "quoted p =
     [CHR 0x22] @
     concat (map (\<lambda>c. if c = CHR 0x22 \<or> c = CHR 0x5C then [CHR 0x5C, c] else [c]) p) @
     [CHR 0x22]"

section \<open>The data the handler works on\<close>

text \<open>
  The types come from headers outside this file; each is modelled by the members the
  handler reads. Line and column numbers are C++ \<^verbatim>\<open>int\<close>s.
\<close>

record LineColumn =
  line :: int
  column :: int

record LineColumnRange =
  range_start :: LineColumn
  range_end :: LineColumn

text \<open>A token of the parsed text; the handler reads its \<^verbatim>\<open>text()\<close>.\<close>

record TokenInfo =
  token_text :: string

text \<open>
  \<^verbatim>\<open>verible::TextStructureView\<close>, by what the handler asks of it: \<^verbatim>\<open>FindTokenAt\<close>,
  which returns a token by value for a line and column, and \<^verbatim>\<open>GetRangeForText\<close>, which
  maps a piece of the text to the range it spans. Neither is defined in this file; each
  is a member of the record, so that every behaviour of them is covered. \<open>tokens\<close> are
  the tokens the text consists of.
\<close>

record TextStructureView =
  tokens :: "TokenInfo list"
  FindTokenAt :: "LineColumn \<Rightarrow> TokenInfo"
  GetRangeForText :: "string \<Rightarrow> LineColumnRange"

text \<open>
  \<^verbatim>\<open>VerilogSourceFile\<close>, as seen through a \<^verbatim>\<open>file_origin\<close> pointer:
  its resolved path and its text structure, null until the file is parsed.
\<close>

record VerilogSourceFile =
  ResolvedPath :: string
  GetTextStructure :: "TextStructureView option"

record SymbolInfo =
  file_origin :: "VerilogSourceFile option"

text \<open>
  \<^verbatim>\<open>SymbolTableNode\<close>: a map tree. \<^verbatim>\<open>Key()\<close> is a pointer to the node's key, null
  at the root; \<^verbatim>\<open>Children()\<close> is a \<^verbatim>\<open>std::map\<close>, listed here in its iteration
  order.
\<close>

datatype SymbolTableNode =
  Node (Key: "string option") (Value: SymbolInfo) (Children: "(string \<times> SymbolTableNode) list")

text \<open>
  \<^verbatim>\<open>ScanSymbolTreeForDefinition(context, symbol)\<close>; a null \<open>context\<close> is \<open>None\<close>.
  \<open>scan_children\<close> is its loop over \<^verbatim>\<open>context->Children()\<close>.
\<close>

fun ScanSymbolTreeForDefinition :: "SymbolTableNode option \<Rightarrow> string \<Rightarrow> SymbolTableNode option"
  and scan_children :: "(string \<times> SymbolTableNode) list \<Rightarrow> string \<Rightarrow> SymbolTableNode option"
where
  "ScanSymbolTreeForDefinition None symbol = None"
| "ScanSymbolTreeForDefinition (Some (Node key info children)) symbol =
     (if (case key of None \<Rightarrow> False | Some k \<Rightarrow> k = symbol) then Some (Node key info children)
      else scan_children children symbol)"
| "scan_children [] symbol = None"
| "scan_children (child # rest) symbol =
     (case ScanSymbolTreeForDefinition (Some (snd child)) symbol of
        Some res \<Rightarrow> Some res
      | None \<Rightarrow> scan_children rest symbol)"

text \<open>
  The claim's words for the scan: the nodes of the tree in pre-order (a node, then the
  subtrees of its children in map order), and the first of them whose key is the name.
\<close>

fun preorder :: "SymbolTableNode \<Rightarrow> SymbolTableNode list" where
  "preorder (Node key info children) =
     Node key info children # concat (map (\<lambda>child. preorder (snd child)) children)"

definition first_match_in_preorder :: "SymbolTableNode \<Rightarrow> string \<Rightarrow> SymbolTableNode option" where
  "first_match_in_preorder root symbol = find (\<lambda>n. Key n = Some symbol) (preorder root)"


section \<open>The handler and its collaborators\<close>

text \<open>The language-server protocol records of a definition request and its answer.\<close>

record Position =
  lsp_line :: int
  character :: int

record Range =
  lsp_start :: Position
  lsp_end :: Position

record Location =
  location_uri :: string
  location_range :: Range

record DefinitionParams =
  textDocument_uri :: string
  position :: Position

text \<open>
  The open documents. A \<^verbatim>\<open>ParsedBuffer\<close> gives its text structure
  (\<^verbatim>\<open>parser().Data()\<close>); a \<^verbatim>\<open>BufferTracker\<close> gives its current parsed buffer, or
  null; \<^verbatim>\<open>FindBufferTrackerOrNull\<close> gives the tracker of a URI, or null.
\<close>

record ParsedBuffer =
  Data :: TextStructureView

record BufferTracker =
  current :: "ParsedBuffer option"

type_synonym BufferTrackerContainer = "string \<Rightarrow> BufferTracker option"

definition FindBufferTrackerOrNull :: "BufferTrackerContainer \<Rightarrow> string \<Rightarrow> BufferTracker option" where
  "FindBufferTrackerOrNull parsed_buffers uri = parsed_buffers uri"

text \<open>
  \<^verbatim>\<open>VerilogProject\<close>: the root, the include paths and the corpus it is constructed
  from, and the files registered in it.
\<close>

record VerilogProject =
  TranslationUnitRoot :: string
  include_paths :: "string list"
  Corpus :: string
  registered_files :: "(string \<times> VerilogSourceFile) list"

definition new_VerilogProject :: "string \<Rightarrow> string list \<Rightarrow> string \<Rightarrow> VerilogProject" where
  "new_VerilogProject root include_paths' corpus =
     \<lparr>TranslationUnitRoot = root, include_paths = include_paths', Corpus = corpus,
      registered_files = []\<rparr>"

text \<open>\<^verbatim>\<open>FileList\<close>: \<^verbatim>\<open>file_paths\<close> and \<^verbatim>\<open>preprocessing.include_dirs\<close>.\<close>

record FileList =
  file_paths :: "string list"
  include_dirs :: "string list"

definition empty_FileList :: FileList where
  "empty_FileList = \<lparr>file_paths = [], include_dirs = []\<rparr>"

text \<open>
  A freshly constructed \<^verbatim>\<open>SymbolTable\<close> is its root node: no key, no children, no
  file of origin.
\<close>

definition new_SymbolTable :: SymbolTableNode where
  "new_SymbolTable = Node None \<lparr>file_origin = None\<rparr> []"

text \<open>
  The functions the handler calls and this file does not define are parameters of the
  model. A \<^verbatim>\<open>std::vector<absl::Status>\<close> of diagnostics is the list of their
  messages; an \<^verbatim>\<open>absl::Status\<close> is \<open>True\<close> when \<^verbatim>\<open>ok()\<close>; an
  \<^verbatim>\<open>absl::StatusOr<VerilogSourceFile*>\<close> is \<open>None\<close> when not ok. Operations on the
  project return the project as they leave it.
\<close>

record collaborators =
  file_exists :: "string \<Rightarrow> bool"
  current_path :: string
  AppendFileListFromFile :: "string \<Rightarrow> FileList \<Rightarrow> bool \<times> FileList"
  addIncludePath :: "VerilogProject \<Rightarrow> string \<Rightarrow> VerilogProject"
  OpenIncludedFile :: "VerilogProject \<Rightarrow> string \<Rightarrow> VerilogSourceFile option \<times> VerilogProject"
  GetRelativePathToSource :: "VerilogProject \<Rightarrow> string \<Rightarrow> string"
  LookupRegisteredFile :: "VerilogProject \<Rightarrow> string \<Rightarrow> VerilogSourceFile option"
  BuildSymbolTable ::
    "VerilogSourceFile \<Rightarrow> SymbolTableNode option \<Rightarrow> VerilogProject option
       \<Rightarrow> SymbolTableNode option \<times> string list"
  SymbolTable_Build :: "VerilogProject \<Rightarrow> SymbolTableNode \<Rightarrow> SymbolTableNode \<times> string list"
  SymbolTable_Resolve :: "SymbolTableNode \<Rightarrow> SymbolTableNode \<times> string list"

text \<open>
  What the handler does that is observable outside it: the messages it logs
  (\<^verbatim>\<open>LOG(INFO)\<close>, \<^verbatim>\<open>LOG(WARNING)\<close>, \<^verbatim>\<open>LOG(ERROR)\<close>, \<^verbatim>\<open>std::cerr\<close>) and its calls
  of \<^verbatim>\<open>symboltable->Build\<close> and \<^verbatim>\<open>symboltable->Resolve\<close>, in the order they happen.
\<close>

datatype severity = INFO | WARNING | ERROR

datatype event = LOG severity string | CERR string | BUILD | RESOLVE

text \<open>
  The members of \<^verbatim>\<open>SymbolTableHandler\<close>: two \<^verbatim>\<open>std::unique_ptr\<close>s (null is
  \<open>None\<close>), the set of checked files and the dirty flag \<^verbatim>\<open>files_dirty_\<close>; with them,
  the trace of events so far.
\<close>

record SymbolTableHandler =
  currproject :: "VerilogProject option"
  symboltable :: "SymbolTableNode option"
  checkedfiles :: "string set"
  files_dirty :: bool
  trace :: "event list"

definition emit :: "event \<Rightarrow> SymbolTableHandler \<Rightarrow> SymbolTableHandler" where
  "emit e s = s\<lparr>trace := trace s @ [e]\<rparr>"

definition emit_all :: "event list \<Rightarrow> SymbolTableHandler \<Rightarrow> SymbolTableHandler" where
  "emit_all es s = s\<lparr>trace := trace s @ es\<rparr>"

text \<open>
  \<^verbatim>\<open>checkedfiles.clear();\<close>
  \<^verbatim>\<open>symboltable = std::make_unique<SymbolTable>(currproject.get());\<close>
\<close>

definition resetSymbolTable :: "SymbolTableHandler \<Rightarrow> SymbolTableHandler" where
  "resetSymbolTable s = s\<lparr>checkedfiles := {}, symboltable := Some new_SymbolTable\<rparr>"

text \<open>
  \<^verbatim>\<open>currproject = std::make_unique<VerilogProject>(root, include_paths, corpus);\<close>
  \<^verbatim>\<open>resetSymbolTable();\<close>
\<close>

definition setProject ::
  "SymbolTableHandler \<Rightarrow> string \<Rightarrow> string list \<Rightarrow> string \<Rightarrow> SymbolTableHandler" where
  "setProject s root include_paths' corpus =
     resetSymbolTable (s\<lparr>currproject := Some (new_VerilogProject root include_paths' corpus)\<rparr>)"

text \<open>
  \<^verbatim>\<open>auto result = BuildSymbolTable(file, symboltable.get(), currproject.get());\<close>
  The diagnostics in \<open>result\<close> are dropped.
\<close>

definition buildSymbolTableFor ::
  "collaborators \<Rightarrow> SymbolTableHandler \<Rightarrow> VerilogSourceFile \<Rightarrow> SymbolTableHandler" where
  "buildSymbolTableFor env s file =
     s\<lparr>symboltable := fst (BuildSymbolTable env file (symboltable s) (currproject s))\<rparr>"

text \<open>
  \<^verbatim>\<open>buildProjectSymbolTable()\<close>. After \<^verbatim>\<open>resetSymbolTable()\<close> the table pointer is not
  null, so \<^verbatim>\<open>symboltable->Build\<close> has a table to work on; the table is built for the
  project it was constructed with, \<^verbatim>\<open>currproject.get()\<close>.
\<close>

definition buildProjectSymbolTable :: "collaborators \<Rightarrow> SymbolTableHandler \<Rightarrow> SymbolTableHandler" where
  "buildProjectSymbolTable env s0 =
     (let s = resetSymbolTable s0 in
      case currproject s of
        None \<Rightarrow> s
      | Some project \<Rightarrow>
          (case symboltable s of
             None \<Rightarrow> s
           | Some table \<Rightarrow>
               (let s = emit (LOG INFO ''Parsing project files...'') s;
                    (table, buildstatus) = SymbolTable_Build env project table;
                    s = emit BUILD (s\<lparr>symboltable := Some table\<rparr>);
                    s = emit_all (map (LOG WARNING) buildstatus) s;
                    (table, resolvestatus) = SymbolTable_Resolve env table;
                    s = emit RESOLVE (s\<lparr>symboltable := Some table\<rparr>);
                    s = emit_all (map (LOG WARNING) resolvestatus) s
                in s\<lparr>files_dirty := False\<rparr>)))"


text \<open>
  A call that dereferences a null pointer does not return: the process is lost. Such a
  call ends in a \<open>fault\<close>, with the handler as it was at that moment.
\<close>

datatype fault = NullPointerDereference

text \<open>
  \<^verbatim>\<open>findDefinition(params, parsed_buffers)\<close>, statement by statement, in three
  parts. The null pointers it can dereference are \<^verbatim>\<open>currproject\<close>, the result of
  \<^verbatim>\<open>FindBufferTrackerOrNull\<close>, \<^verbatim>\<open>symboltable\<close> and \<^verbatim>\<open>node->Key()\<close>.

  The last part, from \<^verbatim>\<open>verible::lsp::Location location;\<close> on: the location of the
  node that the scan has found.
\<close>

definition location_of_node ::
  "collaborators \<Rightarrow> SymbolTableHandler \<Rightarrow> SymbolTableNode
     \<Rightarrow> SymbolTableHandler \<times> (fault + Location list)" where
  "location_of_node env s node =
     (case file_origin (Value node) of
        None \<Rightarrow> (emit (LOG ERROR ''Origin file not available'') s, Inr [])
      | Some origin \<Rightarrow>
          (let uri = PathToLSPUri (current_path env) (ResolvedPath origin) in
           case GetTextStructure origin of
             None \<Rightarrow>
               (emit (LOG ERROR ''Origin file's text structure is not parsed'') s, Inr [])
           | Some textstructure \<Rightarrow>
               (case Key node of
                  None \<Rightarrow> (s, Inl NullPointerDereference)
                | Some key \<Rightarrow>
                    (let symbollocation = GetRangeForText textstructure key in
                     (s, Inr [\<lparr>location_uri = uri,
                               location_range =
                                 \<lparr>lsp_start =
                                    \<lparr>lsp_line = line (range_start symbollocation),
                                     character = column (range_start symbollocation)\<rparr>,
                                  lsp_end =
                                    \<lparr>lsp_line = line (range_end symbollocation),
                                     character = column (range_end symbollocation)\<rparr>\<rparr>\<rparr>])))))"

text \<open>
  The middle part, from \<^verbatim>\<open>const verible::LineColumn cursor\<close> to the scan: the token
  at the cursor, the lookup of the registered file, and the scan of the symbol table for
  the token's text.
\<close>

definition resolve_at_cursor ::
  "collaborators \<Rightarrow> SymbolTableHandler \<Rightarrow> DefinitionParams \<Rightarrow> VerilogProject \<Rightarrow> string
     \<Rightarrow> ParsedBuffer \<Rightarrow> SymbolTableHandler \<times> (fault + Location list)" where
  "resolve_at_cursor env s params project relativepath parsedbuffer =
     (let cursor = \<lparr>line = lsp_line (position params), column = character (position params)\<rparr>;
          text = Data parsedbuffer;
          cursor_token = FindTokenAt text cursor;
          symbol = token_text cursor_token
      in
      case LookupRegisteredFile env project relativepath of
        None \<Rightarrow> (emit (LOG ERROR (''Unable to lookup '' @ textDocument_uri params)) s, Inr [])
      | Some reffile \<Rightarrow>
          (case symboltable s of
             None \<Rightarrow> (s, Inl NullPointerDereference)
           | Some root \<Rightarrow>
               (case ScanSymbolTreeForDefinition (Some root) symbol of
                  None \<Rightarrow>
                    (emit (LOG INFO (''Symbol '' @ symbol @ '' not found in symbol table:  0'')) s,
                     Inr [])
                | Some node \<Rightarrow> location_of_node env s node)))"

text \<open>\<^verbatim>\<open>if (files_dirty_) { buildProjectSymbolTable(); }\<close>\<close>

definition rebuild_if_dirty :: "collaborators \<Rightarrow> SymbolTableHandler \<Rightarrow> SymbolTableHandler" where
  "rebuild_if_dirty env s = (if files_dirty s then buildProjectSymbolTable env s else s)"

text \<open>
  The first part: the rebuild when the dirty flag is set, the conversion of the URI, the
  relative path, and the lookup of the parsed buffer.
\<close>

definition findDefinition ::
  "collaborators \<Rightarrow> SymbolTableHandler \<Rightarrow> DefinitionParams \<Rightarrow> BufferTrackerContainer
     \<Rightarrow> SymbolTableHandler \<times> (fault + Location list)" where
  "findDefinition env s0 params parsed_buffers =
     (let s = rebuild_if_dirty env s0;
          filepath = LSPUriToPath (textDocument_uri params)
      in
      if filepath = [] then
        (emit (CERR (''Could not convert URI '' @ textDocument_uri params @
                     '' to filesystem path.'' @ [CHR 0x0A])) s, Inr [])
      else
        (case currproject s of
           None \<Rightarrow> (s, Inl NullPointerDereference)
         | Some project \<Rightarrow>
             (let relativepath = GetRelativePathToSource env project filepath in
              case FindBufferTrackerOrNull parsed_buffers (textDocument_uri params) of
                None \<Rightarrow> (s, Inl NullPointerDereference)
              | Some tracker \<Rightarrow>
                  (case current tracker of
                     None \<Rightarrow>
                       (emit (LOG ERROR (''Buffer not found among opened buffers:  '' @
                                         textDocument_uri params)) s, Inr [])
                   | Some parsedbuffer \<Rightarrow>
                       resolve_at_cursor env s params project relativepath parsedbuffer))))"

subsection \<open>Loading the file list\<close>

lemma drop_while_end_prefix: "\<exists>ys. p = drop_while_end P p @ ys"
proof -
  have "p = drop_while_end P p @ rev (takeWhile P (rev p))"
    unfolding drop_while_end_def
    by (metis rev_append rev_rev_ident takeWhile_dropWhile_id)
  then show ?thesis ..
qed

lemma parent_path_shorter:
  assumes "parent_path p \<noteq> p"
  shows "length (parent_path p) < length p"
proof -
  from assms have rel: "has_relative_path p"
    by (cases "has_relative_path p") (simp_all add: parent_path_def)
  define stem where "stem = drop_while_end is_separator (drop_while_end (\<lambda>c. \<not> is_separator c) p)"
  obtain ys where ys: "drop_while_end (\<lambda>c. \<not> is_separator c) p = stem @ ys"
    unfolding stem_def using drop_while_end_prefix by blast
  obtain zs where zs: "p = drop_while_end (\<lambda>c. \<not> is_separator c) p @ zs"
    using drop_while_end_prefix by blast
  have p: "p = stem @ ys @ zs" using ys zs by simp
  show ?thesis
  proof (cases "stem = []")
    case True
    have "length (takeWhile is_separator p) < length p"
    proof -
      have "length p = length (takeWhile is_separator p) + length (dropWhile is_separator p)"
        by (metis length_append takeWhile_dropWhile_id)
      moreover have "0 < length (dropWhile is_separator p)"
        using rel by (simp add: has_relative_path_def)
      ultimately show ?thesis by linarith
    qed
    with True rel show ?thesis
      by (simp add: parent_path_def stem_def Let_def)
  next
    case False
    then have pp: "parent_path p = stem"
      using rel by (simp add: parent_path_def stem_def Let_def)
    with assms p have "ys @ zs \<noteq> []" by auto
    then have "length stem < length p"
      using p by (metis append_Nil2 length_append length_greater_0_conv less_add_same_cancel1)
    with pp show ?thesis by simp
  qed
qed

text \<open>
  The \<^verbatim>\<open>while (true)\<close> loop of \<^verbatim>\<open>loadProjectFileList\<close>: the search for the file
  list up the directory hierarchy. It ends with the path of the file list
  (\<^verbatim>\<open>break\<close>), or with \<open>None\<close> when the function returns from inside the loop.
\<close>

function search_filelist ::
  "collaborators \<Rightarrow> string \<Rightarrow> SymbolTableHandler \<Rightarrow> string option \<times> SymbolTableHandler" where
  "search_filelist env currentdirpath s =
     (let projectpath = path_append currentdirpath filelistname;
          s = emit (LOG INFO (''Checking existence of '' @ quoted projectpath)) s
      in
      if file_exists env projectpath then (Some projectpath, s)
      else if parent_path currentdirpath = currentdirpath then
        (None, emit (LOG INFO (filelistname @ '' not found'')) s)
      else search_filelist env (parent_path currentdirpath) s)"
  by pat_completeness auto
termination
  by (relation "measure (\<lambda>(env, currentdirpath, s). length currentdirpath)")
     (auto simp: parent_path_shorter)

declare search_filelist.simps [simp del]

text \<open>
  The loop over \<^verbatim>\<open>filelist.preprocessing.include_dirs\<close> and the loop over
  \<^verbatim>\<open>filelist.file_paths\<close>; \<^verbatim>\<open>currproject\<close> is not null in either (the function
  has returned otherwise), and \<open>project\<close> is the object it points to.
\<close>

fun add_include_dirs ::
  "collaborators \<Rightarrow> string list \<Rightarrow> VerilogProject \<times> SymbolTableHandler
     \<Rightarrow> VerilogProject \<times> SymbolTableHandler" where
  "add_include_dirs env [] (project, s) = (project, s)"
| "add_include_dirs env (incdir # rest) (project, s) =
     add_include_dirs env rest
       (addIncludePath env project incdir,
        emit (LOG INFO (''Adding include path:  '' @ incdir)) s)"

fun add_files ::
  "collaborators \<Rightarrow> string \<Rightarrow> string list \<Rightarrow> SymbolTableHandler \<Rightarrow> SymbolTableHandler" where
  "add_files env projectpath [] s = s"
| "add_files env projectpath (incfile # rest) s =
     (case currproject s of
        None \<Rightarrow> s
      | Some project \<Rightarrow>
          (let (incsource, project) = OpenIncludedFile env project incfile;
               s = s\<lparr>currproject := Some project\<rparr>
           in case incsource of
                None \<Rightarrow>
                  add_files env projectpath rest
                    (emit (LOG WARNING (''File included in '' @ quoted projectpath @
                                        '' not found:  '' @ incfile)) s)
              | Some file \<Rightarrow>
                  add_files env projectpath rest
                    (buildSymbolTableFor env
                       (emit (LOG INFO (''Creating symbol table for:  '' @ incfile)) s) file)))"


text \<open>
  \<^verbatim>\<open>loadProjectFileList(current_dir)\<close>. The file list handed to
  \<^verbatim>\<open>AppendFileListFromFile\<close> is the default-constructed one.
\<close>

definition loadProjectFileList ::
  "collaborators \<Rightarrow> SymbolTableHandler \<Rightarrow> string \<Rightarrow> SymbolTableHandler" where
  "loadProjectFileList env s0 current_dir =
     (let s = emit (LOG INFO ''loadProjectFileList'') s0 in
      case currproject s of
        None \<Rightarrow> s
      | Some project \<Rightarrow>
          (case search_filelist env current_dir s of
             (None, s) \<Rightarrow> s
           | (Some projectpath, s) \<Rightarrow>
               (let s = emit (LOG INFO (''Found file list under '' @ quoted projectpath)) s;
                    (status, filelist) = AppendFileListFromFile env projectpath empty_FileList
                in
                if \<not> status then
                  emit (LOG WARNING (''Failed to parse file list in '' @ projectpath)) s
                else
                  (let (project, s) = add_include_dirs env (include_dirs filelist) (project, s);
                       s = s\<lparr>currproject := Some project\<rparr>
                   in add_files env projectpath (file_paths filelist) s))))"

section \<open>Notions the properties are stated with\<close>

text \<open>
  The directories the search visits, in the claim's words: a directory and its ancestors
  up to and including the one that is its own parent (the filesystem root, or the empty
  path for a relative starting directory).
\<close>

function ancestors :: "string \<Rightarrow> string list" where
  "ancestors dir = dir # (if parent_path dir = dir then [] else ancestors (parent_path dir))"
  by pat_completeness auto
termination
  by (relation "measure length") (auto simp: parent_path_shorter)

declare ancestors.simps [simp del]

text \<open>
  What \<^verbatim>\<open>OpenIncludedFile\<close> answers for each listed file in turn, each call on the
  project as the calls before it left it: the file path, the opened file or \<open>None\<close>,
  and the project after the call.
\<close>

fun open_outcomes ::
  "collaborators \<Rightarrow> VerilogProject \<Rightarrow> string list
     \<Rightarrow> (string \<times> VerilogSourceFile option \<times> VerilogProject) list" where
  "open_outcomes env project [] = []"
| "open_outcomes env project (incfile # rest) =
     (let (incsource, project') = OpenIncludedFile env project incfile
      in (incfile, incsource, project') # open_outcomes env project' rest)"

text \<open>The number of \<^verbatim>\<open>Build\<close> and of \<^verbatim>\<open>Resolve\<close> passes in a trace.\<close>

definition build_passes :: "event list \<Rightarrow> nat" where
  "build_passes tr = count_list tr BUILD"

definition resolve_passes :: "event list \<Rightarrow> nat" where
  "resolve_passes tr = count_list tr RESOLVE"

text \<open>An event that is a message of severity \<^verbatim>\<open>INFO\<close>.\<close>

fun is_info :: "event \<Rightarrow> bool" where
  "is_info (LOG INFO msg) = True"
| "is_info e = False"

text \<open>
  A handler as its constructor leaves it: both pointers null, no checked file. The
  initial value of \<^verbatim>\<open>files_dirty_\<close> is given in the class declaration, outside this
  file, and is a parameter here.
\<close>

definition new_SymbolTableHandler :: "bool \<Rightarrow> SymbolTableHandler" where
  "new_SymbolTableHandler dirty =
     \<lparr>currproject = None, symboltable = None, checkedfiles = {}, files_dirty = dirty,
      trace = []\<rparr>"

text \<open>
  Two handlers that differ in logged messages only: same members, same number of
  \<^verbatim>\<open>Build\<close> and \<^verbatim>\<open>Resolve\<close> passes.
\<close>

definition same_but_log :: "SymbolTableHandler \<Rightarrow> SymbolTableHandler \<Rightarrow> bool" where
  "same_but_log s s' =
     (currproject s' = currproject s \<and> symboltable s' = symboltable s \<and>
      checkedfiles s' = checkedfiles s \<and> files_dirty s' = files_dirty s \<and>
      build_passes (trace s') = build_passes (trace s) \<and>
      resolve_passes (trace s') = resolve_passes (trace s))"

text \<open>
  The second handler is the first one after some messages of severity \<^verbatim>\<open>INFO\<close> and
  nothing else.
\<close>

definition only_info_logged :: "SymbolTableHandler \<Rightarrow> SymbolTableHandler \<Rightarrow> bool" where
  "only_info_logged s s' =
     (currproject s' = currproject s \<and> symboltable s' = symboltable s \<and>
      checkedfiles s' = checkedfiles s \<and> files_dirty s' = files_dirty s \<and>
      (\<exists>es. trace s' = trace s @ es \<and> list_all is_info es))"

text \<open>The position of a request as a \<^verbatim>\<open>LineColumn\<close>.\<close>

definition cursor_of :: "DefinitionParams \<Rightarrow> LineColumn" where
  "cursor_of params = \<lparr>line = lsp_line (position params), column = character (position params)\<rparr>"

text \<open>
  The location of a declaration: the URI of the resolved path of its file of origin, and
  the range that the file's text structure gives for the declared name.
\<close>

definition resolved_location :: "collaborators \<Rightarrow> VerilogSourceFile \<Rightarrow> TextStructureView \<Rightarrow> string \<Rightarrow> Location" where
  "resolved_location env origin textstructure key =
     \<lparr>location_uri = PathToLSPUri (current_path env) (ResolvedPath origin),
      location_range =
        \<lparr>lsp_start = \<lparr>lsp_line = line (range_start (GetRangeForText textstructure key)),
                       character = column (range_start (GetRangeForText textstructure key))\<rparr>,
         lsp_end = \<lparr>lsp_line = line (range_end (GetRangeForText textstructure key)),
                     character = column (range_end (GetRangeForText textstructure key))\<rparr>\<rparr>\<rparr>"

text \<open>
  What the loop over the listed files logs for one file: a warning when the file did not
  open, the announcement of its symbol table when it did.
\<close>

definition file_event :: "string \<Rightarrow> string \<times> VerilogSourceFile option \<times> VerilogProject \<Rightarrow> event" where
  "file_event projectpath outcome =
     (case outcome of
        (incfile, None, project) \<Rightarrow>
          LOG WARNING (''File included in '' @ quoted projectpath @ '' not found:  '' @ incfile)
      | (incfile, Some file, project) \<Rightarrow>
          LOG INFO (''Creating symbol table for:  '' @ incfile))"

text \<open>
  What the loop over the listed files does to the symbol table for one file: nothing when
  the file did not open, \<^verbatim>\<open>BuildSymbolTable\<close> for the file when it did.
\<close>

definition build_opened ::
  "collaborators \<Rightarrow> SymbolTableNode option \<Rightarrow> string \<times> VerilogSourceFile option \<times> VerilogProject
     \<Rightarrow> SymbolTableNode option" where
  "build_opened env table outcome =
     (case outcome of
        (incfile, None, project) \<Rightarrow> table
      | (incfile, Some file, project) \<Rightarrow> fst (BuildSymbolTable env file table (Some project)))"

subsection \<open>A small project, for concrete runs\<close>

text \<open>
  The text \<^verbatim>\<open>module foo\<close> on line 0, with a lookup that gives \<^verbatim>\<open>module\<close> for
  columns 0 to 5, \<^verbatim>\<open>foo\<close> for columns 7 to 9, and a token with empty text anywhere
  else.
\<close>

definition top_text :: TextStructureView where
  "top_text =
     \<lparr>tokens = [\<lparr>token_text = ''module''\<rparr>, \<lparr>token_text = ''foo''\<rparr>],
      FindTokenAt =
        (\<lambda>pos. if line pos = 0 \<and> 0 \<le> column pos \<and> column pos < 6
                then \<lparr>token_text = ''module''\<rparr>
                else if line pos = 0 \<and> 7 \<le> column pos \<and> column pos < 10
                then \<lparr>token_text = ''foo''\<rparr>
                else \<lparr>token_text = ''''\<rparr>),
      GetRangeForText =
        (\<lambda>piece. \<lparr>range_start = \<lparr>line = 0, column = 7\<rparr>,
                    range_end = \<lparr>line = 0, column = 7 + int (length piece)\<rparr>\<rparr>)\<rparr>"

definition top_file :: VerilogSourceFile where
  "top_file = \<lparr>ResolvedPath = ''/proj/top.sv'', GetTextStructure = Some top_text\<rparr>"

definition foo_node :: SymbolTableNode where
  "foo_node = Node (Some ''foo'') \<lparr>file_origin = Some top_file\<rparr> []"

definition built_table :: SymbolTableNode where
  "built_table = Node None \<lparr>file_origin = None\<rparr> [(''foo'', foo_node)]"

text \<open>
  Collaborators of a project whose file list \<^verbatim>\<open>/proj/verible.filelist\<close> names one
  include directory, the file \<^verbatim>\<open>top.sv\<close>, which opens, and the file
  \<^verbatim>\<open>missing.sv\<close>, which does not; \<open>parses\<close> says whether the file list parses.
\<close>

definition example_env :: "bool \<Rightarrow> collaborators" where
  "example_env parses =
     \<lparr>file_exists = (\<lambda>p. p = ''/proj/verible.filelist''),
      current_path = ''/work'',
      AppendFileListFromFile =
        (\<lambda>path filelist.
           if parses then
             (True, \<lparr>file_paths = file_paths filelist @ [''missing.sv'', ''top.sv''],
                     include_dirs = include_dirs filelist @ [''inc'']\<rparr>)
           else (False, filelist)),
      addIncludePath = (\<lambda>project dir. project\<lparr>include_paths := include_paths project @ [dir]\<rparr>),
      OpenIncludedFile =
        (\<lambda>project path.
           if path = ''top.sv'' then
             (Some top_file,
              project\<lparr>registered_files := registered_files project @ [(path, top_file)]\<rparr>)
           else (None, project)),
      GetRelativePathToSource = (\<lambda>project path. drop (length (TranslationUnitRoot project) + 1) path),
      LookupRegisteredFile = (\<lambda>project path. map_of (registered_files project) path),
      BuildSymbolTable =
        (\<lambda>file table project.
           (map_option (\<lambda>t. Node (Key t) (Value t) (Children t @ [(''foo'', foo_node)])) table,
            [])),
      SymbolTable_Build = (\<lambda>project table. (built_table, [''duplicate declaration''])),
      SymbolTable_Resolve = (\<lambda>table. (table, [''unresolved reference'', ''unresolved type'']))\<rparr>"

text \<open>A handler with the project \<^verbatim>\<open>/proj\<close> configured and \<^verbatim>\<open>top.sv\<close> registered.\<close>

definition configured_handler :: "bool \<Rightarrow> SymbolTableHandler" where
  "configured_handler dirty =
     \<lparr>currproject =
        Some \<lparr>TranslationUnitRoot = ''/proj'', include_paths = [], Corpus = '''',
              registered_files = [(''top.sv'', top_file)]\<rparr>,
      symboltable = Some built_table, checkedfiles = {}, files_dirty = dirty, trace = []\<rparr>"

definition request_at :: "string \<Rightarrow> int \<Rightarrow> int \<Rightarrow> DefinitionParams" where
  "request_at uri l c = \<lparr>textDocument_uri = uri, position = \<lparr>lsp_line = l, character = c\<rparr>\<rparr>"

definition open_top :: BufferTrackerContainer where
  "open_top = [''file:///proj/top.sv'' \<mapsto> \<lparr>current = Some \<lparr>Data = top_text\<rparr>\<rparr>]"

text \<open>A handler constructed with the dirty flag set, right after \<^verbatim>\<open>setProject\<close>.\<close>

definition fresh_project_handler :: SymbolTableHandler where
  "fresh_project_handler = setProject (new_SymbolTableHandler True) ''/proj'' [] ''''"

text \<open>
  The handler after \<^verbatim>\<open>setProject\<close> and one query, and that handler after a second
  \<^verbatim>\<open>setProject\<close>.
\<close>

definition first_query_state :: "bool \<Rightarrow> SymbolTableHandler" where
  "first_query_state dirty =
     fst (findDefinition (example_env True)
            (setProject (new_SymbolTableHandler dirty) ''/proj'' [] '''')
            (request_at ''file:///proj/top.sv'' 0 8) open_top)"

definition reconfigured_state :: SymbolTableHandler where
  "reconfigured_state = setProject (first_query_state True) ''/other'' [] ''''"

text \<open>
  An open document without any token: the editor's buffer of \<^verbatim>\<open>top.sv\<close> is empty.
  Its lookup can only give a token with empty text.
\<close>

definition empty_text :: TextStructureView where
  "empty_text =
     \<lparr>tokens = [],
      FindTokenAt = (\<lambda>pos. \<lparr>token_text = ''''\<rparr>),
      GetRangeForText =
        (\<lambda>piece. \<lparr>range_start = \<lparr>line = 0, column = 0\<rparr>,
                    range_end = \<lparr>line = 0, column = 0\<rparr>\<rparr>)\<rparr>"

definition open_empty_top :: BufferTrackerContainer where
  "open_empty_top = [''file:///proj/top.sv'' \<mapsto> \<lparr>current = Some \<lparr>Data = empty_text\<rparr>\<rparr>]"

lemmas example_defs =
  example_env_def configured_handler_def request_at_def open_top_def top_text_def
  top_file_def foo_node_def built_table_def

lemmas query_defs =
  findDefinition_def resolve_at_cursor_def location_of_node_def rebuild_if_dirty_def
  FindBufferTrackerOrNull_def
  LSPUriToPath_def StartsWith_def fileschemeprefix_def PathToLSPUri_def absolute_def
  path_append_def is_absolute_def is_separator_def emit_def

lemmas path_defs =
  path_append_def parent_path_def has_relative_path_def drop_while_end_def is_absolute_def
  is_separator_def filelistname_def

section \<open>URI and path conversion\<close>

lemma path_append_absolute: "is_absolute p \<Longrightarrow> path_append cwd p = p"
  by (simp add: path_append_def)

text \<open>
  Claim C7. For every absolute path \<open>P\<close>, \<open>LSPUriToPath (PathToLSPUri P)\<close> is \<open>P\<close>
  again, whatever the working directory; a URI that does not start with \<open>file://\<close>
  is converted to the empty string, and one that does to the characters after that
  prefix.
\<close>

theorem LSPUri_round_trip:
  "(is_absolute P \<longrightarrow> LSPUriToPath (PathToLSPUri cwd P) = P) \<and>
   (\<not> StartsWith uri fileschemeprefix \<longrightarrow> LSPUriToPath uri = '''') \<and>
   LSPUriToPath (fileschemeprefix @ rest) = rest"
  by (simp add: LSPUriToPath_def PathToLSPUri_def absolute_def StartsWith_def
      path_append_absolute)

theorem LSPUri_round_trip_witness:
  "is_absolute ''/home/user/top.sv'' \<and>
   LSPUriToPath (PathToLSPUri ''/work'' ''/home/user/top.sv'') = ''/home/user/top.sv'' \<and>
   \<not> StartsWith ''untitled://top.sv'' fileschemeprefix \<and>
   LSPUriToPath ''untitled://top.sv'' = ''''"
  using LSPUri_round_trip [of "''/home/user/top.sv''" "''/work''" "''untitled://top.sv''" "''''"]
  by (simp add: is_absolute_def is_separator_def StartsWith_def fileschemeprefix_def)

section \<open>The scan of the symbol tree\<close>

lemma find_append_case:
  "find P (xs @ ys) = (case find P xs of Some x \<Rightarrow> Some x | None \<Rightarrow> find P ys)"
  by (induction xs) simp_all

lemma scan_is_find:
  "ScanSymbolTreeForDefinition ctx symbol =
     (case ctx of None \<Rightarrow> None | Some n \<Rightarrow> find (\<lambda>n. Key n = Some symbol) (preorder n))"
  "scan_children cs symbol =
     find (\<lambda>n. Key n = Some symbol) (concat (map (\<lambda>child. preorder (snd child)) cs))"
proof (induction ctx symbol and cs symbol rule: ScanSymbolTreeForDefinition_scan_children.induct)
  case (1 symbol)
  show ?case by simp
next
  case (2 key info children symbol)
  then show ?case by (cases key) auto
next
  case (3 symbol)
  show ?case by simp
next
  case (4 child rest symbol)
  then show ?case by (simp add: find_append_case split: option.splits)
qed

text \<open>
  Claim C3. \<open>ScanSymbolTreeForDefinition\<close> returns null for a null context; for a tree
  it returns the first node, in pre-order over the whole tree (a node before its
  children, the children in map order), whose key is the name, whatever scope that node
  is in; and it returns null exactly when no node of the tree has the name as key.
\<close>

theorem ScanSymbolTreeForDefinition_first_preorder_match:
  "ScanSymbolTreeForDefinition None symbol = None \<and>
   ScanSymbolTreeForDefinition (Some root) symbol = first_match_in_preorder root symbol \<and>
   (ScanSymbolTreeForDefinition (Some root) symbol = None) =
     (\<not> (\<exists>n. n \<in> set (preorder root) \<and> Key n = Some symbol))"
  by (simp add: scan_is_find first_match_in_preorder_def find_None_iff)


section \<open>Rebuilding the symbol table\<close>

lemma resetSymbolTable_fields [simp]:
  "currproject (resetSymbolTable s) = currproject s"
  "symboltable (resetSymbolTable s) = Some new_SymbolTable"
  "checkedfiles (resetSymbolTable s) = {}"
  "files_dirty (resetSymbolTable s) = files_dirty s"
  "trace (resetSymbolTable s) = trace s"
  by (simp_all add: resetSymbolTable_def)

text \<open>
  Claim C6, as the code has it. When a project is configured, a call of
  \<open>buildProjectSymbolTable\<close> resets the table and the checked files, runs
  \<^verbatim>\<open>Build\<close> for the project on the fresh table and then \<^verbatim>\<open>Resolve\<close> on the result,
  logs every diagnostic of the two passes as a warning, in order, and clears the dirty
  flag, however many diagnostics there were. Nothing in it can fail.
\<close>

theorem buildProjectSymbolTable_configured:
  assumes "currproject s = Some project"
  shows "buildProjectSymbolTable env s =
     (let (built, buildstatus) = SymbolTable_Build env project new_SymbolTable;
          (resolved, resolvestatus) = SymbolTable_Resolve env built
      in s\<lparr>checkedfiles := {}, symboltable := Some resolved, files_dirty := False,
           trace := trace s @ [LOG INFO ''Parsing project files...'', BUILD] @
                    map (LOG WARNING) buildstatus @ [RESOLVE] @
                    map (LOG WARNING) resolvestatus\<rparr>)"
  using assms
  by (simp add: buildProjectSymbolTable_def Let_def emit_def emit_all_def
      resetSymbolTable_def split: prod.splits)

theorem buildProjectSymbolTable_configured_witness:
  "currproject (configured_handler True) =
     Some \<lparr>TranslationUnitRoot = ''/proj'', include_paths = [], Corpus = '''',
           registered_files = [(''top.sv'', top_file)]\<rparr> \<and>
   buildProjectSymbolTable (example_env True) (configured_handler True) =
     (configured_handler True)
       \<lparr>checkedfiles := {}, symboltable := Some built_table, files_dirty := False,
        trace := [LOG INFO ''Parsing project files...'', BUILD,
                  LOG WARNING ''duplicate declaration'', RESOLVE,
                  LOG WARNING ''unresolved reference'', LOG WARNING ''unresolved type'']\<rparr>"
  using buildProjectSymbolTable_configured
    [of "configured_handler True"
        "\<lparr>TranslationUnitRoot = ''/proj'', include_paths = [], Corpus = '''',
          registered_files = [(''top.sv'', top_file)]\<rparr>" "example_env True"]
  by (simp add: configured_handler_def example_env_def)

text \<open>
  Without a project the call neither builds nor resolves, and the dirty flag stays set:
  "every call" is too strong.
\<close>

theorem buildProjectSymbolTable_every_call_counterexample:
  "files_dirty (buildProjectSymbolTable (example_env True) (new_SymbolTableHandler True)) \<and>
   build_passes (trace (buildProjectSymbolTable (example_env True) (new_SymbolTableHandler True))) = 0 \<and>
   resolve_passes (trace (buildProjectSymbolTable (example_env True) (new_SymbolTableHandler True))) = 0"
  by (simp add: buildProjectSymbolTable_def new_SymbolTableHandler_def resetSymbolTable_def
      build_passes_def resolve_passes_def)

text \<open>
  Claim C10. With no project configured, \<open>buildProjectSymbolTable\<close> still replaces the
  table by a fresh empty one and clears the checked files, but runs neither
  \<^verbatim>\<open>Build\<close> nor \<^verbatim>\<open>Resolve\<close> (the trace is unchanged) and leaves the dirty flag as
  it was: a set flag stays set.
\<close>

theorem buildProjectSymbolTable_unconfigured:
  assumes "currproject s = None"
  shows "buildProjectSymbolTable env s = s\<lparr>checkedfiles := {}, symboltable := Some new_SymbolTable\<rparr> \<and>
         trace (buildProjectSymbolTable env s) = trace s \<and>
         files_dirty (buildProjectSymbolTable env s) = files_dirty s \<and>
         (files_dirty s \<longrightarrow> files_dirty (buildProjectSymbolTable env s))"
  using assms by (simp add: buildProjectSymbolTable_def resetSymbolTable_def)

theorem buildProjectSymbolTable_unconfigured_witness:
  "currproject (new_SymbolTableHandler True) = None \<and>
   files_dirty (new_SymbolTableHandler True) \<and>
   buildProjectSymbolTable (example_env True) (new_SymbolTableHandler True) =
     \<lparr>currproject = None, symboltable = Some new_SymbolTable, checkedfiles = {},
      files_dirty = True, trace = []\<rparr>"
  using buildProjectSymbolTable_unconfigured [of "new_SymbolTableHandler True" "example_env True"]
  by (simp add: new_SymbolTableHandler_def)

section \<open>What a query leaves of the handler\<close>

lemma emit_fields [simp]:
  "currproject (emit e s) = currproject s"
  "symboltable (emit e s) = symboltable s"
  "checkedfiles (emit e s) = checkedfiles s"
  "files_dirty (emit e s) = files_dirty s"
  "trace (emit e s) = trace s @ [e]"
  by (simp_all add: emit_def)

lemma emit_all_fields [simp]:
  "currproject (emit_all es s) = currproject s"
  "symboltable (emit_all es s) = symboltable s"
  "checkedfiles (emit_all es s) = checkedfiles s"
  "files_dirty (emit_all es s) = files_dirty s"
  "trace (emit_all es s) = trace s @ es"
  by (simp_all add: emit_all_def)

lemma passes_append [simp]:
  "build_passes (xs @ ys) = build_passes xs + build_passes ys"
  "resolve_passes (xs @ ys) = resolve_passes xs + resolve_passes ys"
  by (simp_all add: build_passes_def resolve_passes_def)

lemma passes_simps [simp]:
  "build_passes [] = 0" "resolve_passes [] = 0"
  "build_passes (LOG sev msg # tr) = build_passes tr"
  "build_passes (CERR msg # tr) = build_passes tr"
  "build_passes (BUILD # tr) = Suc (build_passes tr)"
  "build_passes (RESOLVE # tr) = build_passes tr"
  "resolve_passes (LOG sev msg # tr) = resolve_passes tr"
  "resolve_passes (CERR msg # tr) = resolve_passes tr"
  "resolve_passes (BUILD # tr) = resolve_passes tr"
  "resolve_passes (RESOLVE # tr) = Suc (resolve_passes tr)"
  by (simp_all add: build_passes_def resolve_passes_def)

lemma passes_warnings [simp]:
  "build_passes (map (LOG sev) msgs) = 0"
  "resolve_passes (map (LOG sev) msgs) = 0"
  by (induction msgs) simp_all

text \<open>
  A query touches only the trace, and adds no pass to it, beyond what the rebuild at its
  start does.
\<close>

lemma location_of_node_frame: "same_but_log s (fst (location_of_node env s node))"
  by (simp add: location_of_node_def same_but_log_def Let_def split: option.splits)

lemma resolve_at_cursor_frame:
  "same_but_log s (fst (resolve_at_cursor env s params project relativepath parsedbuffer))"
  using location_of_node_frame [of s env]
  by (simp add: resolve_at_cursor_def Let_def same_but_log_def split: option.splits)

lemma findDefinition_frame:
  "same_but_log (rebuild_if_dirty env s0) (fst (findDefinition env s0 params parsed_buffers))"
  using resolve_at_cursor_frame [of "rebuild_if_dirty env s0" env params]
  by (simp add: findDefinition_def Let_def same_but_log_def split: option.splits)

lemma query_passes:
  "build_passes (trace (fst (findDefinition env s params bufs))) =
     build_passes (trace (rebuild_if_dirty env s))"
  "resolve_passes (trace (fst (findDefinition env s params bufs))) =
     resolve_passes (trace (rebuild_if_dirty env s))"
  "files_dirty (fst (findDefinition env s params bufs)) = files_dirty (rebuild_if_dirty env s)"
  "currproject (fst (findDefinition env s params bufs)) = currproject (rebuild_if_dirty env s)"
  using findDefinition_frame [of env s params bufs] by (simp_all add: same_but_log_def)

lemma build_configured_passes:
  assumes "currproject s = Some project"
  shows "build_passes (trace (buildProjectSymbolTable env s)) = build_passes (trace s) + 1"
    and "resolve_passes (trace (buildProjectSymbolTable env s)) = resolve_passes (trace s) + 1"
    and "\<not> files_dirty (buildProjectSymbolTable env s)"
    and "currproject (buildProjectSymbolTable env s) = Some project"
  using assms
  by (simp_all add: buildProjectSymbolTable_def Let_def emit_def emit_all_def
      resetSymbolTable_def split: prod.splits)

lemma setProject_fields [simp]:
  "currproject (setProject s root incs corpus) = Some (new_VerilogProject root incs corpus)"
  "symboltable (setProject s root incs corpus) = Some new_SymbolTable"
  "checkedfiles (setProject s root incs corpus) = {}"
  "files_dirty (setProject s root incs corpus) = files_dirty s"
  "trace (setProject s root incs corpus) = trace s"
  by (simp_all add: setProject_def)

section \<open>The dirty flag\<close>

text \<open>
  Claim C2, as the code has it. \<open>setProject\<close> leaves the dirty flag as it finds it. When
  the flag is set at that moment, the first \<open>findDefinition\<close> after \<open>setProject\<close>
  answers from the rebuilt table (it is the query on the handler that
  \<open>buildProjectSymbolTable\<close> returns), having made exactly one \<^verbatim>\<open>Build\<close> and one
  \<^verbatim>\<open>Resolve\<close> pass, and leaves the flag cleared; a second \<open>findDefinition\<close> makes no
  further pass. When the flag is not set, the first query makes no pass either.
\<close>

theorem dirty_flag_contract:
  "files_dirty (setProject s root incs corpus) = files_dirty s \<and>
   (let s1 = setProject s root incs corpus;
        s2 = fst (findDefinition env s1 params1 buffers1);
        s3 = fst (findDefinition env s2 params2 buffers2)
    in (files_dirty s \<longrightarrow>
          findDefinition env (buildProjectSymbolTable env s1) params1 buffers1 =
            findDefinition env s1 params1 buffers1 \<and>
          build_passes (trace s2) = build_passes (trace s1) + 1 \<and>
          resolve_passes (trace s2) = resolve_passes (trace s1) + 1 \<and>
          \<not> files_dirty s2 \<and>
          build_passes (trace s3) = build_passes (trace s2) \<and>
          resolve_passes (trace s3) = resolve_passes (trace s2)) \<and>
       (\<not> files_dirty s \<longrightarrow>
          build_passes (trace s2) = build_passes (trace s1) \<and>
          resolve_passes (trace s2) = resolve_passes (trace s1)))"
proof -
  define s1 where "s1 = setProject s root incs corpus"
  define s2 where "s2 = fst (findDefinition env s1 params1 buffers1)"
  define s3 where "s3 = fst (findDefinition env s2 params2 buffers2)"
  have proj: "currproject s1 = Some (new_VerilogProject root incs corpus)"
    and dirty1: "files_dirty s1 = files_dirty s"
    by (simp_all add: s1_def)
  have clean: "build_passes (trace s2) = build_passes (trace s1) \<and>
               resolve_passes (trace s2) = resolve_passes (trace s1)" if "\<not> files_dirty s"
    using that dirty1 by (simp add: s2_def query_passes rebuild_if_dirty_def)
  have dirty: "findDefinition env (buildProjectSymbolTable env s1) params1 buffers1 =
                 findDefinition env s1 params1 buffers1 \<and>
               build_passes (trace s2) = build_passes (trace s1) + 1 \<and>
               resolve_passes (trace s2) = resolve_passes (trace s1) + 1 \<and>
               \<not> files_dirty s2 \<and>
               build_passes (trace s3) = build_passes (trace s2) \<and>
               resolve_passes (trace s3) = resolve_passes (trace s2)" if d: "files_dirty s"
  proof -
    from d dirty1 have r1: "rebuild_if_dirty env s1 = buildProjectSymbolTable env s1"
      by (simp add: rebuild_if_dirty_def)
    have nd: "\<not> files_dirty (buildProjectSymbolTable env s1)"
      using build_configured_passes(3) [OF proj] .
    then have r1': "rebuild_if_dirty env (buildProjectSymbolTable env s1) = buildProjectSymbolTable env s1"
      by (simp add: rebuild_if_dirty_def)
    have same: "findDefinition env (buildProjectSymbolTable env s1) params1 buffers1 =
                 findDefinition env s1 params1 buffers1"
      by (simp add: findDefinition_def r1 r1')
    have nd2: "\<not> files_dirty s2"
      using nd by (simp add: s2_def query_passes r1)
    then have r2: "rebuild_if_dirty env s2 = s2"
      by (simp add: rebuild_if_dirty_def)
    have bp2: "build_passes (trace s2) = build_passes (trace s1) + 1"
      using build_configured_passes(1) [OF proj, of env] by (simp add: s2_def query_passes r1)
    have rp2: "resolve_passes (trace s2) = resolve_passes (trace s1) + 1"
      using build_configured_passes(2) [OF proj, of env] by (simp add: s2_def query_passes r1)
    have bp3: "build_passes (trace s3) = build_passes (trace s2)"
      by (simp add: s3_def query_passes r2)
    have rp3: "resolve_passes (trace s3) = resolve_passes (trace s2)"
      by (simp add: s3_def query_passes r2)
    from same nd2 bp2 rp2 bp3 rp3 show ?thesis by blast
  qed
  show ?thesis
    unfolding Let_def s1_def [symmetric] s2_def [symmetric] s3_def [symmetric]
    using clean dirty dirty1 by blast
qed

theorem dirty_flag_contract_witness:
  "files_dirty (new_SymbolTableHandler True) \<and>
   build_passes (trace (first_query_state True)) = 1 \<and>
   resolve_passes (trace (first_query_state True)) = 1 \<and>
   \<not> files_dirty (first_query_state True) \<and>
   build_passes (trace (fst (findDefinition (example_env True) (first_query_state True)
                               (request_at ''file:///proj/top.sv'' 0 8) open_top))) = 1 \<and>
   resolve_passes (trace (fst (findDefinition (example_env True) (first_query_state True)
                                 (request_at ''file:///proj/top.sv'' 0 8) open_top))) = 1"
  using dirty_flag_contract
    [of "new_SymbolTableHandler True" "''/proj''" "[]" "''''" "example_env True"
        "request_at ''file:///proj/top.sv'' 0 8" open_top
        "request_at ''file:///proj/top.sv'' 0 8" open_top]
  by (simp add: Let_def first_query_state_def new_SymbolTableHandler_def)

lemma first_query_clean: "\<not> files_dirty (first_query_state True)"
  by (simp add: first_query_state_def query_passes rebuild_if_dirty_def
      new_SymbolTableHandler_def build_configured_passes)

text \<open>
  \<open>setProject\<close> does not mark the handler dirty: after a query has cleared the flag, a
  second \<open>setProject\<close> leaves it cleared and the next query triggers no pass; and a
  handler constructed with the flag cleared makes no pass after its first \<open>setProject\<close>.
\<close>

theorem setProject_marks_dirty_counterexample:
  "\<not> files_dirty reconfigured_state \<and>
   build_passes (trace (fst (findDefinition (example_env True) reconfigured_state
                               (request_at ''file:///other/top.sv'' 0 8) open_top))) =
     build_passes (trace reconfigured_state) \<and>
   resolve_passes (trace (fst (findDefinition (example_env True) reconfigured_state
                                 (request_at ''file:///other/top.sv'' 0 8) open_top))) =
     resolve_passes (trace reconfigured_state) \<and>
   build_passes (trace (first_query_state False)) = 0"
  using first_query_clean
  by (simp add: reconfigured_state_def query_passes rebuild_if_dirty_def)
     (simp add: first_query_state_def query_passes rebuild_if_dirty_def new_SymbolTableHandler_def)

section \<open>The answer of a query\<close>

lemma scan_Some_key:
  "ScanSymbolTreeForDefinition ctx symbol = Some node \<Longrightarrow> Key node = Some symbol"
  by (cases ctx) (auto simp: scan_is_find find_Some_iff)

lemma location_of_node_answer:
  "snd (location_of_node env s node) =
     (case file_origin (Value node) of
        None \<Rightarrow> Inr []
      | Some origin \<Rightarrow>
          (case GetTextStructure origin of
             None \<Rightarrow> Inr []
           | Some textstructure \<Rightarrow>
               (case Key node of
                  None \<Rightarrow> Inl NullPointerDereference
                | Some key \<Rightarrow> Inr [resolved_location env origin textstructure key])))"
  by (simp add: location_of_node_def resolved_location_def Let_def split: option.splits)

lemma resolve_at_cursor_answer:
  "snd (resolve_at_cursor env s params project relativepath parsedbuffer) =
     (case LookupRegisteredFile env project relativepath of
        None \<Rightarrow> Inr []
      | Some reffile \<Rightarrow>
          (case symboltable s of
             None \<Rightarrow> Inl NullPointerDereference
           | Some root \<Rightarrow>
               (case ScanSymbolTreeForDefinition (Some root)
                       (token_text (FindTokenAt (Data parsedbuffer) (cursor_of params))) of
                  None \<Rightarrow> Inr []
                | Some node \<Rightarrow> snd (location_of_node env s node))))"
  by (simp add: resolve_at_cursor_def cursor_of_def Let_def split: option.splits)

lemma findDefinition_answer:
  "snd (findDefinition env s0 params parsed_buffers) =
     (if LSPUriToPath (textDocument_uri params) = [] then Inr []
      else case currproject (rebuild_if_dirty env s0) of
        None \<Rightarrow> Inl NullPointerDereference
      | Some project \<Rightarrow>
          (case parsed_buffers (textDocument_uri params) of
             None \<Rightarrow> Inl NullPointerDereference
           | Some tracker \<Rightarrow>
               (case current tracker of
                  None \<Rightarrow> Inr []
                | Some parsedbuffer \<Rightarrow>
                    snd (resolve_at_cursor env (rebuild_if_dirty env s0) params project
                           (GetRelativePathToSource env project
                              (LSPUriToPath (textDocument_uri params)))
                           parsedbuffer))))"
  by (simp add: findDefinition_def FindBufferTrackerOrNull_def Let_def split: option.splits)

lemma location_of_node_length:
  "snd (location_of_node env s node) = Inr locs \<Longrightarrow> length locs \<le> 1"
  by (auto simp: location_of_node_answer split: option.splits)

lemma resolve_at_cursor_length:
  "snd (resolve_at_cursor env s params project relativepath parsedbuffer) = Inr locs
     \<Longrightarrow> length locs \<le> 1"
  by (auto simp: resolve_at_cursor_answer split: option.splits dest: location_of_node_length)

lemma findDefinition_length:
  "snd (findDefinition env s0 params parsed_buffers) = Inr locs \<Longrightarrow> length locs \<le> 1"
  by (auto simp: findDefinition_answer split: option.splits if_splits dest: resolve_at_cursor_length)

lemma found_node_answer:
  assumes "ScanSymbolTreeForDefinition (Some root) symbol = Some node"
  shows "snd (location_of_node env s node) =
     (case file_origin (Value node) of
        None \<Rightarrow> Inr []
      | Some origin \<Rightarrow>
          (case GetTextStructure origin of
             None \<Rightarrow> Inr []
           | Some textstructure \<Rightarrow> Inr [resolved_location env origin textstructure symbol]))"
  using scan_Some_key [OF assms]
  by (simp add: location_of_node_answer split: option.splits)

text \<open>
  Claim C4. Every list that \<open>findDefinition\<close> returns has at most one element. The
  answer is the empty list when the URI does not convert to a path, when the file is not
  registered in the project, when the scan finds no node, when the node found has no
  file of origin, and when that file has no text structure; otherwise it is the
  one-element list of the resolved location. (The cases are those of a call that reaches
  them: a project is configured and the document is open.)
\<close>

theorem findDefinition_at_most_one_location:
  "(let s = rebuild_if_dirty env s0;
        uri = textDocument_uri params;
        answer = snd (findDefinition env s0 params parsed_buffers)
    in (\<forall>locs. answer = Inr locs \<longrightarrow> length locs \<le> 1) \<and>
       (LSPUriToPath uri = [] \<longrightarrow> answer = Inr []) \<and>
       (\<forall>project tracker parsedbuffer.
          LSPUriToPath uri \<noteq> [] \<and> currproject s = Some project \<and>
          parsed_buffers uri = Some tracker \<and> current tracker = Some parsedbuffer \<longrightarrow>
          (let relativepath = GetRelativePathToSource env project (LSPUriToPath uri);
               symbol = token_text (FindTokenAt (Data parsedbuffer) (cursor_of params))
           in (LookupRegisteredFile env project relativepath = None \<longrightarrow> answer = Inr []) \<and>
              (\<forall>reffile root.
                 LookupRegisteredFile env project relativepath = Some reffile \<and>
                 symboltable s = Some root \<longrightarrow>
                 (case ScanSymbolTreeForDefinition (Some root) symbol of
                    None \<Rightarrow> answer = Inr []
                  | Some node \<Rightarrow>
                      (case file_origin (Value node) of
                         None \<Rightarrow> answer = Inr []
                       | Some origin \<Rightarrow>
                           (case GetTextStructure origin of
                              None \<Rightarrow> answer = Inr []
                            | Some textstructure \<Rightarrow>
                                answer = Inr [resolved_location env origin textstructure symbol])))))))"
proof -
  have len: "\<forall>locs. snd (findDefinition env s0 params parsed_buffers) = Inr locs \<longrightarrow> length locs \<le> 1"
    using findDefinition_length by blast
  have bad_uri: "LSPUriToPath (textDocument_uri params) = [] \<longrightarrow>
                 snd (findDefinition env s0 params parsed_buffers) = Inr []"
    by (simp add: findDefinition_answer)
  have rest: "(case ScanSymbolTreeForDefinition (Some root) symbol of
                 None \<Rightarrow> snd (findDefinition env s0 params parsed_buffers) = Inr []
               | Some node \<Rightarrow>
                   (case file_origin (Value node) of
                      None \<Rightarrow> snd (findDefinition env s0 params parsed_buffers) = Inr []
                    | Some origin \<Rightarrow>
                        (case GetTextStructure origin of
                           None \<Rightarrow> snd (findDefinition env s0 params parsed_buffers) = Inr []
                         | Some textstructure \<Rightarrow>
                             snd (findDefinition env s0 params parsed_buffers) =
                               Inr [resolved_location env origin textstructure symbol])))"
    if "LSPUriToPath (textDocument_uri params) \<noteq> []"
      and "currproject (rebuild_if_dirty env s0) = Some project"
      and "parsed_buffers (textDocument_uri params) = Some tracker"
      and "current tracker = Some parsedbuffer"
      and "LookupRegisteredFile env project
             (GetRelativePathToSource env project (LSPUriToPath (textDocument_uri params))) = Some reffile"
      and "symboltable (rebuild_if_dirty env s0) = Some root"
      and "symbol = token_text (FindTokenAt (Data parsedbuffer) (cursor_of params))"
    for project tracker parsedbuffer reffile root symbol
    using that
    by (auto simp: findDefinition_answer resolve_at_cursor_answer found_node_answer
        split: option.splits)
  have unregistered: "snd (findDefinition env s0 params parsed_buffers) = Inr []"
    if "LSPUriToPath (textDocument_uri params) \<noteq> []"
      and "currproject (rebuild_if_dirty env s0) = Some project"
      and "parsed_buffers (textDocument_uri params) = Some tracker"
      and "current tracker = Some parsedbuffer"
      and "LookupRegisteredFile env project
             (GetRelativePathToSource env project (LSPUriToPath (textDocument_uri params))) = None"
    for project tracker parsedbuffer
    using that by (simp add: findDefinition_answer resolve_at_cursor_answer)
  show ?thesis
    unfolding Let_def
    using len bad_uri rest unregistered by blast
qed

theorem findDefinition_at_most_one_location_witness:
  "LSPUriToPath ''file:///proj/top.sv'' = ''/proj/top.sv'' \<and>
   currproject (rebuild_if_dirty (example_env True) (configured_handler False)) =
     Some \<lparr>TranslationUnitRoot = ''/proj'', include_paths = [], Corpus = '''',
           registered_files = [(''top.sv'', top_file)]\<rparr> \<and>
   symboltable (rebuild_if_dirty (example_env True) (configured_handler False)) =
     Some built_table \<and>
   open_top ''file:///proj/top.sv'' = Some \<lparr>current = Some \<lparr>Data = top_text\<rparr>\<rparr> \<and>
   LookupRegisteredFile (example_env True)
     \<lparr>TranslationUnitRoot = ''/proj'', include_paths = [], Corpus = '''',
      registered_files = [(''top.sv'', top_file)]\<rparr> ''top.sv'' = Some top_file \<and>
   token_text (FindTokenAt top_text \<lparr>line = 0, column = 8\<rparr>) = ''foo'' \<and>
   ScanSymbolTreeForDefinition (Some built_table) ''foo'' = Some foo_node \<and>
   snd (findDefinition (example_env True) (configured_handler False)
          (request_at ''file:///proj/top.sv'' 0 8) open_top) =
     Inr [\<lparr>location_uri = ''file:///proj/top.sv'',
           location_range = \<lparr>lsp_start = \<lparr>lsp_line = 0, character = 7\<rparr>,
                              lsp_end = \<lparr>lsp_line = 0, character = 10\<rparr>\<rparr>\<rparr>] \<and>
   snd (findDefinition (example_env True) (configured_handler False)
          (request_at ''untitled://top.sv'' 0 8) open_top) = Inr []"
  using findDefinition_at_most_one_location
    [of "example_env True" "configured_handler False" "request_at ''file:///proj/top.sv'' 0 8"
        open_top]
    findDefinition_at_most_one_location
    [of "example_env True" "configured_handler False" "request_at ''untitled://top.sv'' 0 8"
        open_top]
  by (simp add: example_defs query_defs Let_def)

lemma findDefinition_no_tracker:
  "LSPUriToPath (textDocument_uri params) \<noteq> [] \<Longrightarrow>
   parsed_buffers (textDocument_uri params) = None \<Longrightarrow>
   snd (findDefinition env s0 params parsed_buffers) = Inl NullPointerDereference"
  by (simp add: findDefinition_answer split: option.splits)

text \<open>
  Claim C1 fails on the code. For a document that is not among the open ones,
  \<^verbatim>\<open>FindBufferTrackerOrNull\<close> returns null and \<^verbatim>\<open>->current()\<close> is called on it: the
  query ends in a null pointer dereference, not in an empty list. Here the project is
  configured, \<^verbatim>\<open>top.sv\<close> is open and the request is for \<^verbatim>\<open>other.sv\<close>.
\<close>

theorem findDefinition_no_tracker_faults:
  "open_top ''file:///proj/other.sv'' = None \<and>
   snd (findDefinition (example_env True) (configured_handler False)
          (request_at ''file:///proj/other.sv'' 0 8) open_top) = Inl NullPointerDereference"
  by (simp add: example_defs query_defs Let_def)

lemma resolve_at_cursor_unfolded:
  "resolve_at_cursor env s params project relativepath parsedbuffer =
     (case LookupRegisteredFile env project relativepath of
        None \<Rightarrow> (emit (LOG ERROR (''Unable to lookup '' @ textDocument_uri params)) s, Inr [])
      | Some reffile \<Rightarrow>
          (case symboltable s of
             None \<Rightarrow> (s, Inl NullPointerDereference)
           | Some root \<Rightarrow>
               (case first_match_in_preorder root
                       (token_text (FindTokenAt (Data parsedbuffer) (cursor_of params))) of
                  None \<Rightarrow>
                    (emit (LOG INFO (''Symbol '' @
                             token_text (FindTokenAt (Data parsedbuffer) (cursor_of params)) @
                             '' not found in symbol table:  0'')) s, Inr [])
                | Some node \<Rightarrow> location_of_node env s node)))"
  by (simp add: resolve_at_cursor_def cursor_of_def Let_def scan_is_find
      first_match_in_preorder_def split: option.splits)

lemma findDefinition_reaches_cursor:
  assumes "LSPUriToPath (textDocument_uri params) \<noteq> []"
    and "currproject (rebuild_if_dirty env s0) = Some project"
    and "parsed_buffers (textDocument_uri params) = Some tracker"
    and "current tracker = Some parsedbuffer"
  shows "findDefinition env s0 params parsed_buffers =
           resolve_at_cursor env (rebuild_if_dirty env s0) params project
             (GetRelativePathToSource env project (LSPUriToPath (textDocument_uri params)))
             parsedbuffer"
  using assms by (simp add: findDefinition_def FindBufferTrackerOrNull_def Let_def)

text \<open>
  Claim C5, as the code has it. \<open>findDefinition\<close> makes no test on the token that
  \<^verbatim>\<open>FindTokenAt\<close> returns, so a position that no token covers is treated like any
  other: once the buffer is found, the registered file is looked up and the symbol table
  is scanned for the text of the returned token, whatever that token is. The call logs
  and returns the empty list when the file is not registered or the scan finds no node
  with that text as key, and otherwise goes on to the location of the first such node.
  In particular the answer is empty for every table none of whose nodes has the returned
  text as key.
\<close>

theorem findDefinition_resolves_returned_token:
  assumes "LSPUriToPath (textDocument_uri params) \<noteq> []"
    and "currproject (rebuild_if_dirty env s0) = Some project"
    and "parsed_buffers (textDocument_uri params) = Some tracker"
    and "current tracker = Some parsedbuffer"
  shows "(let s = rebuild_if_dirty env s0;
              uri = textDocument_uri params;
              symbol = token_text (FindTokenAt (Data parsedbuffer) (cursor_of params))
          in findDefinition env s0 params parsed_buffers =
               (case LookupRegisteredFile env project
                       (GetRelativePathToSource env project (LSPUriToPath uri)) of
                  None \<Rightarrow> (emit (LOG ERROR (''Unable to lookup '' @ uri)) s, Inr [])
                | Some reffile \<Rightarrow>
                    (case symboltable s of
                       None \<Rightarrow> (s, Inl NullPointerDereference)
                     | Some root \<Rightarrow>
                         (case first_match_in_preorder root symbol of
                            None \<Rightarrow>
                              (emit (LOG INFO (''Symbol '' @ symbol @
                                               '' not found in symbol table:  0'')) s,
                               Inr [])
                          | Some node \<Rightarrow> location_of_node env s node))) \<and>
             (\<forall>root. symboltable s = Some root \<longrightarrow>
                     (\<forall>n \<in> set (preorder root). Key n \<noteq> Some symbol) \<longrightarrow>
                     snd (findDefinition env s0 params parsed_buffers) = Inr []))"
proof -
  define s where "s = rebuild_if_dirty env s0"
  define symbol where "symbol = token_text (FindTokenAt (Data parsedbuffer) (cursor_of params))"
  have first: "findDefinition env s0 params parsed_buffers =
           (case LookupRegisteredFile env project
                   (GetRelativePathToSource env project (LSPUriToPath (textDocument_uri params))) of
              None \<Rightarrow> (emit (LOG ERROR (''Unable to lookup '' @ textDocument_uri params)) s, Inr [])
            | Some reffile \<Rightarrow>
                (case symboltable s of
                   None \<Rightarrow> (s, Inl NullPointerDereference)
                 | Some root \<Rightarrow>
                     (case first_match_in_preorder root symbol of
                        None \<Rightarrow>
                          (emit (LOG INFO (''Symbol '' @ symbol @
                                           '' not found in symbol table:  0'')) s,
                           Inr [])
                      | Some node \<Rightarrow> location_of_node env s node)))"
  proof -
    have reach: "findDefinition env s0 params parsed_buffers =
                   resolve_at_cursor env (rebuild_if_dirty env s0) params project
                     (GetRelativePathToSource env project
                        (LSPUriToPath (textDocument_uri params)))
                     parsedbuffer"
      using assms by (rule findDefinition_reaches_cursor)
    show ?thesis
      unfolding s_def symbol_def by (simp only: reach resolve_at_cursor_unfolded)
  qed
  have none: "first_match_in_preorder root symbol = None"
    if "\<forall>n \<in> set (preorder root). Key n \<noteq> Some symbol" for root
    using that by (simp add: first_match_in_preorder_def find_None_iff)
  have second: "snd (findDefinition env s0 params parsed_buffers) = Inr []"
    if "symboltable s = Some root"
      and "\<forall>n \<in> set (preorder root). Key n \<noteq> Some symbol" for root
    using that(1) none [OF that(2)] by (simp add: first split: option.splits)
  from first second show ?thesis
    unfolding Let_def s_def [symmetric] symbol_def [symmetric] by blast
qed

theorem findDefinition_resolves_returned_token_witness:
  "LSPUriToPath ''file:///proj/top.sv'' = ''/proj/top.sv'' \<and>
   currproject (rebuild_if_dirty (example_env True) (configured_handler False)) =
     Some \<lparr>TranslationUnitRoot = ''/proj'', include_paths = [], Corpus = '''',
           registered_files = [(''top.sv'', top_file)]\<rparr> \<and>
   open_top ''file:///proj/top.sv'' = Some \<lparr>current = Some \<lparr>Data = top_text\<rparr>\<rparr> \<and>
   token_text (FindTokenAt top_text \<lparr>line = 3, column = 8\<rparr>) = '''' \<and>
   symboltable (rebuild_if_dirty (example_env True) (configured_handler False)) =
     Some built_table \<and>
   list_all (\<lambda>n. Key n \<noteq> Some '''') (preorder built_table) \<and>
   findDefinition (example_env True) (configured_handler False)
     (request_at ''file:///proj/top.sv'' 3 8) open_top =
     (emit (LOG INFO ''Symbol  not found in symbol table:  0'') (configured_handler False),
      Inr [])"
  using findDefinition_resolves_returned_token
    [of "request_at ''file:///proj/top.sv'' 3 8" "example_env True" "configured_handler False"
        "\<lparr>TranslationUnitRoot = ''/proj'', include_paths = [], Corpus = '''',
          registered_files = [(''top.sv'', top_file)]\<rparr>"
        open_top "\<lparr>current = Some \<lparr>Data = top_text\<rparr>\<rparr>" "\<lparr>Data = top_text\<rparr>"]
  by (simp add: example_defs query_defs cursor_of_def first_match_in_preorder_def Let_def
      list_all_iff)

text \<open>
  The open buffer of \<^verbatim>\<open>top.sv\<close> has no token at all, so no token covers the
  position. The query still looks the file up and scans the table: what it logs is the
  outcome of the scan, for the text of the token that the lookup returned.
\<close>

theorem findDefinition_uncovered_position_counterexample:
  "tokens empty_text = [] \<and>
   open_empty_top ''file:///proj/top.sv'' = Some \<lparr>current = Some \<lparr>Data = empty_text\<rparr>\<rparr> \<and>
   ScanSymbolTreeForDefinition (Some built_table)
     (token_text (FindTokenAt empty_text \<lparr>line = 0, column = 0\<rparr>)) = None \<and>
   trace (fst (findDefinition (example_env True) (configured_handler False)
                 (request_at ''file:///proj/top.sv'' 0 0) open_empty_top)) =
     [LOG INFO ''Symbol  not found in symbol table:  0''] \<and>
   snd (findDefinition (example_env True) (configured_handler False)
          (request_at ''file:///proj/top.sv'' 0 0) open_empty_top) = Inr []"
  by (simp add: example_defs query_defs empty_text_def open_empty_top_def Let_def)

section \<open>Loading the file list\<close>

lemma only_info_logged_emit:
  "only_info_logged (emit (LOG INFO msg) s) s' \<Longrightarrow> only_info_logged s s'"
  by (auto simp: only_info_logged_def)

lemma only_info_logged_emit_refl: "only_info_logged s (emit (LOG INFO msg) s)"
  by (simp add: only_info_logged_def)

lemma only_info_logged_trans:
  "only_info_logged s s' \<Longrightarrow> only_info_logged s' s'' \<Longrightarrow> only_info_logged s s''"
  by (auto simp: only_info_logged_def)

lemma search_filelist_frame: "only_info_logged s (snd (search_filelist env dir s))"
proof (induction env dir s rule: search_filelist.induct)
  case (1 env currentdirpath s)
  define s1 where
    "s1 = emit (LOG INFO (''Checking existence of '' @
                          quoted (path_append currentdirpath filelistname))) s"
  have a: "only_info_logged s s1" by (simp add: s1_def only_info_logged_emit_refl)
  show ?case
  proof (cases "file_exists env (path_append currentdirpath filelistname)")
    case True
    then show ?thesis
      using a by (subst search_filelist.simps) (simp add: Let_def s1_def)
  next
    case False
    show ?thesis
    proof (cases "parent_path currentdirpath = currentdirpath")
      case True
      have "only_info_logged s (emit (LOG INFO (filelistname @ '' not found'')) s1)"
        using a only_info_logged_emit_refl by (rule only_info_logged_trans)
      with False True show ?thesis
        by (subst search_filelist.simps) (simp add: Let_def s1_def)
    next
      case diff: False
      have "only_info_logged s1 (snd (search_filelist env (parent_path currentdirpath) s1))"
        using "1.IH" [OF refl refl False diff] by (simp add: s1_def)
      with a have "only_info_logged s (snd (search_filelist env (parent_path currentdirpath) s1))"
        by (rule only_info_logged_trans)
      with False diff show ?thesis
        by (subst search_filelist.simps) (simp add: Let_def s1_def)
    qed
  qed
qed

lemma search_filelist_not_found:
  "\<forall>d \<in> set (ancestors dir). \<not> file_exists env (path_append d filelistname)
     \<Longrightarrow> fst (search_filelist env dir s) = None"
proof (induction env dir s rule: search_filelist.induct)
  case (1 env currentdirpath s)
  have here: "\<not> file_exists env (path_append currentdirpath filelistname)"
    using "1.prems" by (subst (asm) ancestors.simps) simp
  show ?case
  proof (cases "parent_path currentdirpath = currentdirpath")
    case True
    with here show ?thesis by (subst search_filelist.simps) (simp add: Let_def)
  next
    case False
    have "\<forall>d \<in> set (ancestors (parent_path currentdirpath)).
            \<not> file_exists env (path_append d filelistname)"
      using "1.prems" False by (subst (asm) ancestors.simps) simp
    from "1.IH" [OF refl refl here False this] here False show ?thesis
      by (subst search_filelist.simps) (simp add: Let_def)
  qed
qed

text \<open>
  Claim C8. When none of the starting directory and its ancestors, up to and including
  the root, holds a file \<^verbatim>\<open>verible.filelist\<close>, \<open>loadProjectFileList\<close> returns with the
  project (its include paths and its registered files), the symbol table, the checked
  files and the dirty flag as they were, having logged messages of severity
  \<^verbatim>\<open>INFO\<close> only.
\<close>

theorem loadProjectFileList_no_filelist:
  assumes "\<forall>d \<in> set (ancestors current_dir). \<not> file_exists env (path_append d filelistname)"
  shows "currproject (loadProjectFileList env s current_dir) = currproject s \<and>
         symboltable (loadProjectFileList env s current_dir) = symboltable s \<and>
         checkedfiles (loadProjectFileList env s current_dir) = checkedfiles s \<and>
         files_dirty (loadProjectFileList env s current_dir) = files_dirty s \<and>
         (\<exists>es. trace (loadProjectFileList env s current_dir) = trace s @ es \<and> list_all is_info es)"
proof -
  define s1 where "s1 = emit (LOG INFO ''loadProjectFileList'') s"
  have a: "only_info_logged s s1" by (simp add: s1_def only_info_logged_emit_refl)
  have "only_info_logged s (loadProjectFileList env s current_dir)"
  proof (cases "currproject s")
    case None
    then show ?thesis using a by (simp add: loadProjectFileList_def Let_def s1_def)
  next
    case (Some project)
    have nf: "fst (search_filelist env current_dir s1) = None"
      using assms by (rule search_filelist_not_found)
    have "only_info_logged s (snd (search_filelist env current_dir s1))"
      using a search_filelist_frame by (rule only_info_logged_trans)
    moreover have "loadProjectFileList env s current_dir = snd (search_filelist env current_dir s1)"
      using Some nf
      by (cases "search_filelist env current_dir s1")
         (simp add: loadProjectFileList_def Let_def s1_def)
    ultimately show ?thesis by simp
  qed
  then show ?thesis by (simp add: only_info_logged_def)
qed

theorem loadProjectFileList_no_filelist_witness:
  "list_all (\<lambda>d. \<not> file_exists (example_env True) (path_append d filelistname))
     (ancestors ''/other/rtl'') \<and>
   ancestors ''/other/rtl'' = [''/other/rtl'', ''/other'', ''/''] \<and>
   currproject (loadProjectFileList (example_env True) (configured_handler False) ''/other/rtl'') =
     currproject (configured_handler False) \<and>
   symboltable (loadProjectFileList (example_env True) (configured_handler False) ''/other/rtl'') =
     symboltable (configured_handler False)"
proof -
  have anc: "ancestors ''/other/rtl'' = [''/other/rtl'', ''/other'', ''/'']"
    by (simp add: ancestors.simps path_defs)
  have none: "\<forall>d \<in> set (ancestors ''/other/rtl'').
      \<not> file_exists (example_env True) (path_append d filelistname)"
    by (simp add: anc example_env_def path_defs)
  from loadProjectFileList_no_filelist [OF none, of "configured_handler False"] anc none
  show ?thesis by (simp add: list_all_iff)
qed

lemma add_include_dirs_fold:
  "add_include_dirs env dirs (project, s) =
     (foldl (addIncludePath env) project dirs,
      emit_all (map (\<lambda>incdir. LOG INFO (''Adding include path:  '' @ incdir)) dirs) s)"
proof (induction dirs arbitrary: project s)
  case Nil
  show ?case by (simp add: emit_all_def)
next
  case (Cons incdir rest)
  show ?case by (simp add: Cons.IH emit_all_def emit_def)
qed

lemma buildSymbolTableFor_fields [simp]:
  "currproject (buildSymbolTableFor env s file) = currproject s"
  "symboltable (buildSymbolTableFor env s file) =
     fst (BuildSymbolTable env file (symboltable s) (currproject s))"
  "checkedfiles (buildSymbolTableFor env s file) = checkedfiles s"
  "files_dirty (buildSymbolTableFor env s file) = files_dirty s"
  "trace (buildSymbolTableFor env s file) = trace s"
  by (simp_all add: buildSymbolTableFor_def)

lemma add_files_step:
  assumes "currproject s = Some project"
    and "OpenIncludedFile env project incfile = (incsource, project')"
  shows "add_files env projectpath (incfile # rest) s =
           add_files env projectpath rest
             ((emit (file_event projectpath (incfile, incsource, project')) s)
                \<lparr>currproject := Some project',
                 symboltable := build_opened env (symboltable s) (incfile, incsource, project')\<rparr>)"
proof -
  define t where
    "t = (emit (file_event projectpath (incfile, incsource, project')) s)
           \<lparr>currproject := Some project',
            symboltable := build_opened env (symboltable s) (incfile, incsource, project')\<rparr>"
  show ?thesis
    unfolding t_def [symmetric]
  proof (cases incsource)
    case None
    define u where
      "u = emit (LOG WARNING (''File included in '' @ quoted projectpath @
                              '' not found:  '' @ incfile)) (s\<lparr>currproject := Some project'\<rparr>)"
    have 1: "add_files env projectpath (incfile # rest) s = add_files env projectpath rest u"
      using assms None by (simp add: u_def)
    have 2: "u = t"
      by (rule SymbolTableHandler.equality)
         (simp_all add: u_def t_def None file_event_def build_opened_def emit_def)
    show "add_files env projectpath (incfile # rest) s = add_files env projectpath rest t"
      by (simp only: 1 2)
  next
    case (Some src)
    define u where
      "u = buildSymbolTableFor env
             (emit (LOG INFO (''Creating symbol table for:  '' @ incfile))
                (s\<lparr>currproject := Some project'\<rparr>)) src"
    have 1: "add_files env projectpath (incfile # rest) s = add_files env projectpath rest u"
      using assms Some by (simp add: u_def)
    have 2: "u = t"
      by (rule SymbolTableHandler.equality)
         (simp_all add: u_def t_def Some file_event_def build_opened_def emit_def
            buildSymbolTableFor_def)
    show "add_files env projectpath (incfile # rest) s = add_files env projectpath rest t"
      by (simp only: 1 2)
  qed
qed

lemma add_files_outcomes:
  assumes "currproject s = Some project"
  shows "currproject (add_files env projectpath paths s) =
           Some (last (project # map (\<lambda>outcome. snd (snd outcome)) (open_outcomes env project paths))) \<and>
         symboltable (add_files env projectpath paths s) =
           foldl (build_opened env) (symboltable s) (open_outcomes env project paths) \<and>
         trace (add_files env projectpath paths s) =
           trace s @ map (file_event projectpath) (open_outcomes env project paths) \<and>
         checkedfiles (add_files env projectpath paths s) = checkedfiles s \<and>
         files_dirty (add_files env projectpath paths s) = files_dirty s"
  using assms
proof (induction paths arbitrary: s project)
  case Nil
  then show ?case by simp
next
  case (Cons incfile rest)
  obtain incsource project' where o: "OpenIncludedFile env project incfile = (incsource, project')"
    by (cases "OpenIncludedFile env project incfile")
  define s' where
    "s' = (emit (file_event projectpath (incfile, incsource, project')) s)
            \<lparr>currproject := Some project',
             symboltable := build_opened env (symboltable s) (incfile, incsource, project')\<rparr>"
  have p: "currproject s' = Some project'" by (simp add: s'_def)
  have step: "add_files env projectpath (incfile # rest) s = add_files env projectpath rest s'"
    unfolding s'_def using Cons.prems o by (rule add_files_step)
  have fields: "symboltable s' = build_opened env (symboltable s) (incfile, incsource, project')"
    "trace s' = trace s @ [file_event projectpath (incfile, incsource, project')]"
    "checkedfiles s' = checkedfiles s" "files_dirty s' = files_dirty s"
    by (simp_all add: s'_def)
  have outs: "open_outcomes env project (incfile # rest) =
                (incfile, incsource, project') # open_outcomes env project' rest"
    using o by simp
  show ?case
    unfolding step outs using Cons.IH [OF p] by (simp add: fields)
qed

lemma open_outcomes_paths: "map fst (open_outcomes env project paths) = paths"
  by (induction paths arbitrary: project) (simp_all add: Let_def split: prod.splits)

lemma fresh_project_handler_fields:
  "currproject fresh_project_handler = Some (new_VerilogProject ''/proj'' [] '''')"
  "symboltable fresh_project_handler = Some new_SymbolTable"
  by (simp_all add: fresh_project_handler_def)

lemma fst_search_filelist_example:
  "fst (search_filelist (example_env parses) ''/proj/rtl/'' s) = Some ''/proj/verible.filelist''"
  by (simp add: search_filelist.simps path_defs example_env_def Let_def)

text \<open>
  Claim C9. Let the search find the file list at \<open>projectpath\<close>. If the file list does
  not parse, a warning is logged and the project and the symbol table stay as they were.
  If it parses, every listed file is tried, in order, each on the project as the earlier
  ones left it: the project ends as the last \<^verbatim>\<open>OpenIncludedFile\<close> left it, the symbol
  table is the old one with \<^verbatim>\<open>BuildSymbolTable\<close> applied for each file that opened, and
  the log has, per listed file, a warning when it did not open and the announcement of
  its symbol table when it did.
\<close>

theorem loadProjectFileList_degrades_gracefully:
  assumes "currproject s = Some project"
    and "search_filelist env current_dir (emit (LOG INFO ''loadProjectFileList'') s) =
           (Some projectpath, s1)"
    and "AppendFileListFromFile env projectpath empty_FileList = (status, filelist)"
  shows "(\<not> status \<longrightarrow>
            currproject (loadProjectFileList env s current_dir) = Some project \<and>
            symboltable (loadProjectFileList env s current_dir) = symboltable s \<and>
            trace (loadProjectFileList env s current_dir) =
              trace s1 @ [LOG INFO (''Found file list under '' @ quoted projectpath),
                          LOG WARNING (''Failed to parse file list in '' @ projectpath)]) \<and>
         (status \<longrightarrow>
            (let project1 = foldl (addIncludePath env) project (include_dirs filelist);
                 outcomes = open_outcomes env project1 (file_paths filelist)
             in map fst outcomes = file_paths filelist \<and>
                currproject (loadProjectFileList env s current_dir) =
                  Some (last (project1 # map (\<lambda>outcome. snd (snd outcome)) outcomes)) \<and>
                symboltable (loadProjectFileList env s current_dir) =
                  foldl (build_opened env) (symboltable s) outcomes \<and>
                trace (loadProjectFileList env s current_dir) =
                  trace s1 @ [LOG INFO (''Found file list under '' @ quoted projectpath)] @
                  map (\<lambda>incdir. LOG INFO (''Adding include path:  '' @ incdir))
                    (include_dirs filelist) @
                  map (file_event projectpath) outcomes))"
proof -
  define s0 where "s0 = emit (LOG INFO ''loadProjectFileList'') s"
  have frame: "only_info_logged s0 s1"
    using search_filelist_frame [of s0 env current_dir] assms(2) by (simp add: s0_def)
  then have s1: "currproject s1 = Some project" "symboltable s1 = symboltable s"
    using assms(1) by (simp_all add: only_info_logged_def s0_def)
  define s2 where "s2 = emit (LOG INFO (''Found file list under '' @ quoted projectpath)) s1"
  show ?thesis
  proof (cases status)
    case False
    have "loadProjectFileList env s current_dir =
            emit (LOG WARNING (''Failed to parse file list in '' @ projectpath)) s2"
      using assms False by (simp add: loadProjectFileList_def Let_def s2_def)
    with False s1 show ?thesis by (simp add: s2_def)
  next
    case True
    define project1 where "project1 = foldl (addIncludePath env) project (include_dirs filelist)"
    define s3 where
      "s3 = (emit_all (map (\<lambda>incdir. LOG INFO (''Adding include path:  '' @ incdir))
                         (include_dirs filelist)) s2)\<lparr>currproject := Some project1\<rparr>"
    have p3: "currproject s3 = Some project1" by (simp add: s3_def)
    have load: "loadProjectFileList env s current_dir =
                  add_files env projectpath (file_paths filelist) s3"
      using assms True
      by (simp add: loadProjectFileList_def Let_def add_include_dirs_fold s2_def s3_def
          project1_def)
    from add_files_outcomes [OF p3, of env projectpath "file_paths filelist"] True s1
    show ?thesis
      by (simp add: load Let_def project1_def [symmetric] open_outcomes_paths)
         (simp add: s3_def s2_def)
  qed
qed

theorem loadProjectFileList_degrades_gracefully_witness:
  "fst (search_filelist (example_env False) ''/proj/rtl/''
          (emit (LOG INFO ''loadProjectFileList'') fresh_project_handler)) =
     Some ''/proj/verible.filelist'' \<and>
   \<not> fst (AppendFileListFromFile (example_env False) ''/proj/verible.filelist'' empty_FileList) \<and>
   currproject (loadProjectFileList (example_env False) fresh_project_handler ''/proj/rtl/'') =
     Some (new_VerilogProject ''/proj'' [] '''') \<and>
   symboltable (loadProjectFileList (example_env False) fresh_project_handler ''/proj/rtl/'') =
     Some new_SymbolTable \<and>
   AppendFileListFromFile (example_env True) ''/proj/verible.filelist'' empty_FileList =
     (True, \<lparr>file_paths = [''missing.sv'', ''top.sv''], include_dirs = [''inc'']\<rparr>) \<and>
   currproject (loadProjectFileList (example_env True) fresh_project_handler ''/proj/rtl/'') =
     Some \<lparr>TranslationUnitRoot = ''/proj'', include_paths = [''inc''], Corpus = '''',
           registered_files = [(''top.sv'', top_file)]\<rparr> \<and>
   symboltable (loadProjectFileList (example_env True) fresh_project_handler ''/proj/rtl/'') =
     Some built_table"
proof -
  let ?s0 = "emit (LOG INFO ''loadProjectFileList'') fresh_project_handler"
  have found: "search_filelist (example_env parses) ''/proj/rtl/'' ?s0 =
                 (Some ''/proj/verible.filelist'',
                  snd (search_filelist (example_env parses) ''/proj/rtl/'' ?s0))" for parses
    using fst_search_filelist_example [of parses ?s0] by (simp add: prod_eq_iff)
  have bad: "AppendFileListFromFile (example_env False) ''/proj/verible.filelist'' empty_FileList =
               (False, empty_FileList)"
    by (simp add: example_env_def)
  have good: "AppendFileListFromFile (example_env True) ''/proj/verible.filelist'' empty_FileList =
                (True, \<lparr>file_paths = [''missing.sv'', ''top.sv''], include_dirs = [''inc'']\<rparr>)"
    by (simp add: example_env_def empty_FileList_def)
  have c1: "fst (search_filelist (example_env False) ''/proj/rtl/'' ?s0) =
              Some ''/proj/verible.filelist''"
    by (rule fst_search_filelist_example)
  note A = loadProjectFileList_degrades_gracefully
             [OF fresh_project_handler_fields(1) found [of False] bad]
  note B = loadProjectFileList_degrades_gracefully
             [OF fresh_project_handler_fields(1) found [of True] good]
  from A B c1 bad good show ?thesis
    by (simp add: Let_def fresh_project_handler_fields example_env_def new_VerilogProject_def
        build_opened_def new_SymbolTable_def built_table_def empty_FileList_def)
qed

end
